theory Spec2Isabelle
  imports Main
begin

section \<open>The DevTools injector of decky-loader (backend/injector.py)\<close>

text \<open>
  A shallow embedding of \<^verbatim>\<open>backend/injector.py\<close>: the class \<^verbatim>\<open>Tab\<close> with its
  command/response correlation over one websocket, the discovery loop \<^verbatim>\<open>get_tabs\<close>,
  the lookup \<^verbatim>\<open>get_tab\<close> and the existence check \<^verbatim>\<open>tab_has_global_var\<close>.

  Every coroutine of the source becomes a function that returns
  \<^item> \<open>None\<close> when the coroutine never returns (it waits for a message that never comes,
    or for a host that never listens),
  \<^item> \<open>Some (Inl e, s)\<close> when it raises \<open>e\<close>, leaving the state \<open>s\<close> behind,
  \<^item> \<open>Some (Inr v, s)\<close> when it returns \<open>v\<close>.
  Logging is left out. What the transport library does beyond handing over messages
  (a failing \<^verbatim>\<open>send_json\<close>, a frame that is no JSON text) is outside the source and is
  not modelled: a command counts as issued once it is handed to \<^verbatim>\<open>send_json\<close>.
\<close>

subsection \<open>Python values and exceptions\<close>

text \<open>
  The values that \<^verbatim>\<open>json()\<close> yields and that the code builds as commands. Python's
  \<^verbatim>\<open>None\<close> is \<open>JNull\<close>; a dict is the list of its items in insertion order (keys
  distinct). Floats do not occur in the commands and are left out.
\<close>

datatype json =
    JNull
  | JBool bool
  | JInt int
  | JStr string
  | JArr "json list"
  | JObj "(string \<times> json) list"

text \<open>
  The exceptions by their Python class, with the message or key where the code or a claim
  depends on it. \<open>ClientError\<close> stands for what the transport raises other than
  \<^verbatim>\<open>ClientConnectorError\<close>. \<open>NotModelled\<close> is no exception of Python: it marks
  the features of \<^verbatim>\<open>str.format\<close> that the model of it below leaves out.
\<close>

datatype error =
    RuntimeError string
  | ValueError string
  | Exception string
  | KeyError string
  | TypeError
  | AttributeError
  | IndexError
  | ClientError string
  | NotModelled

text \<open>\<^verbatim>\<open>d[k] = v\<close> on a dict: an existing key keeps its place, a new one goes last.\<close>

fun dict_set :: "string \<Rightarrow> json \<Rightarrow> (string \<times> json) list \<Rightarrow> (string \<times> json) list" where
  "dict_set k v [] = [(k, v)]"
| "dict_set k v (p # ps) = (if fst p = k then (k, v) # ps else p # dict_set k v ps)"

fun is_prefix :: "string \<Rightarrow> string \<Rightarrow> bool" where
  "is_prefix [] ys = True"
| "is_prefix (x # xs) [] = False"
| "is_prefix (x # xs) (y # ys) = (x = y \<and> is_prefix xs ys)"

text \<open>\<^verbatim>\<open>needle in hay\<close> on two strings.\<close>

fun str_contains :: "string \<Rightarrow> string \<Rightarrow> bool" where
  "str_contains needle [] = (needle = [])"
| "str_contains needle (c # cs) = (is_prefix needle (c # cs) \<or> str_contains needle cs)"

text \<open>
  \<^verbatim>\<open>k in x\<close> for a string \<open>k\<close>: key membership on a dict, element membership on a
  list, substring on a string, \<^verbatim>\<open>TypeError\<close> on \<^verbatim>\<open>None\<close>, bools and ints.
\<close>

fun py_in :: "string \<Rightarrow> json \<Rightarrow> error + bool" where
  "py_in k (JObj kvs) = Inr (map_of kvs k \<noteq> None)"
| "py_in k (JArr xs) = Inr (JStr k \<in> set xs)"
| "py_in k (JStr s) = Inr (str_contains k s)"
| "py_in k JNull = Inl TypeError"
| "py_in k (JBool b) = Inl TypeError"
| "py_in k (JInt i) = Inl TypeError"

text \<open>\<^verbatim>\<open>x[k]\<close> for a string \<open>k\<close>: only a dict can be subscripted by a string.\<close>

fun py_getitem :: "json \<Rightarrow> string \<Rightarrow> error + json" where
  "py_getitem (JObj kvs) k = (case map_of kvs k of None \<Rightarrow> Inl (KeyError k) | Some v \<Rightarrow> Inr v)"
| "py_getitem (JArr xs) k = Inl TypeError"
| "py_getitem (JStr s) k = Inl TypeError"
| "py_getitem JNull k = Inl TypeError"
| "py_getitem (JBool b) k = Inl TypeError"
| "py_getitem (JInt i) k = Inl TypeError"

text \<open>\<^verbatim>\<open>x == n\<close> for an int \<open>n\<close>: Python's bools are the ints 0 and 1.\<close>

fun py_eq_int :: "json \<Rightarrow> int \<Rightarrow> bool" where
  "py_eq_int (JInt i) n = (i = n)"
| "py_eq_int (JBool b) n = ((if b then 1 else 0) = n)"
| "py_eq_int JNull n = False"
| "py_eq_int (JStr s) n = False"
| "py_eq_int (JArr xs) n = False"
| "py_eq_int (JObj kvs) n = False"

subsection \<open>The websocket and the Tab\<close>

text \<open>
  What the websocket will deliver, as the async iterator of the library sees it: the next
  message and the rest, the end of the iteration (the connection is closed), or a wait
  that never finishes. The stream may be infinite.
\<close>

codatatype inbound =
    Closed
  | Silent
  | Frame json inbound

text \<open>Finitely many messages in front of a stream.\<close>

fun prepend :: "json list \<Rightarrow> inbound \<Rightarrow> inbound" where
  "prepend [] s = s"
| "prepend (m # ms) s = Frame m (prepend ms s)"

record ws =
  sent :: "json list"
  inbound :: inbound

datatype client_session = ClientOpen | ClientClosed

record tab =
  title :: json
  tab_id :: json
  ws_url :: json
  websocket :: "ws option"
  client :: "client_session option"
  cmd_id :: int

type_synonym 'a io = "((error + 'a) \<times> tab) option"

text \<open>Sequencing two steps: an exception or a wait without end stops the sequence.\<close>

definition and_then :: "'a io \<Rightarrow> ('a \<Rightarrow> tab \<Rightarrow> 'b io) \<Rightarrow> 'b io" where
  "and_then m f =
     (case m of
        None \<Rightarrow> None
      | Some (Inl e, t) \<Rightarrow> Some (Inl e, t)
      | Some (Inr v, t) \<Rightarrow> f v t)"

text \<open>
  \<^verbatim>\<open>Tab.__init__\<close>: the three fields are read from the entry in this order; the class
  attribute \<^verbatim>\<open>cmd_id = 0\<close> is what a new object's \<^verbatim>\<open>self.cmd_id\<close> reads.
\<close>

definition Tab_init :: "json \<Rightarrow> error + tab" where
  "Tab_init res =
     (case py_getitem res ''title'' of Inl e \<Rightarrow> Inl e | Inr ti \<Rightarrow>
       (case py_getitem res ''id'' of Inl e \<Rightarrow> Inl e | Inr i \<Rightarrow>
         (case py_getitem res ''webSocketDebuggerUrl'' of Inl e \<Rightarrow> Inl e | Inr u \<Rightarrow>
            Inr \<lparr>title = ti, tab_id = i, ws_url = u, websocket = None, client = None,
                 cmd_id = 0\<rparr>)))"

text \<open>
  \<^verbatim>\<open>open_websocket\<close>: \<open>conn\<close> is what \<^verbatim>\<open>ws_connect(self.ws_url)\<close> does, an exception or
  a new connection with its stream of messages. The client is assigned first.
\<close>

definition open_websocket :: "tab \<Rightarrow> error + inbound \<Rightarrow> unit io" where
  "open_websocket t conn =
     (let t1 = t\<lparr>client := Some ClientOpen\<rparr> in
      case conn of
        Inl e \<Rightarrow> Some (Inl e, t1)
      | Inr s \<Rightarrow> Some (Inr (), t1\<lparr>websocket := Some \<lparr>sent = [], inbound = s\<rparr>\<rparr>))"

text \<open>
  \<^verbatim>\<open>close_websocket\<close>: \<^verbatim>\<open>self.client.close()\<close>, an \<^verbatim>\<open>AttributeError\<close> while the client
  is still \<^verbatim>\<open>None\<close>. \<^verbatim>\<open>self.websocket\<close> keeps the closed connection, whose iteration
  ends at once.
\<close>

definition close_websocket :: "tab \<Rightarrow> unit io" where
  "close_websocket t =
     (case client t of
        None \<Rightarrow> Some (Inl AttributeError, t)
      | Some c \<Rightarrow>
          Some (Inr (), t\<lparr>client := Some ClientClosed,
                          websocket := map_option (\<lambda>w. w\<lparr>inbound := Closed\<rparr>) (websocket t)\<rparr>))"

text \<open>The test \<^verbatim>\<open>"id" in msg and msg["id"] == dc["id"]\<close> of the receive loop.\<close>

definition msg_matches :: "json \<Rightarrow> int \<Rightarrow> error + bool" where
  "msg_matches msg n =
     (case py_in ''id'' msg of
        Inl e \<Rightarrow> Inl e
      | Inr False \<Rightarrow> Inr False
      | Inr True \<Rightarrow> (case py_getitem msg ''id'' of Inl e \<Rightarrow> Inl e | Inr v \<Rightarrow> Inr (py_eq_int v n)))"

text \<open>
  The loop \<^verbatim>\<open>async for msg in self.listen_for_message()\<close> of \<^verbatim>\<open>_send_devtools_cmd\<close>:
  it returns the first message that passes the test, \<^verbatim>\<open>None\<close> when the iteration ends,
  and does not return on a stream that neither ends nor delivers such a message. The
  second component is what is left of the stream.
\<close>

partial_function (option) listen_for_message :: "int \<Rightarrow> inbound \<Rightarrow> ((error + json) \<times> inbound) option" where
  "listen_for_message n s =
     (case s of
        Closed \<Rightarrow> Some (Inr JNull, Closed)
      | Silent \<Rightarrow> None
      | Frame msg s' \<Rightarrow>
          (case msg_matches msg n of
             Inl e \<Rightarrow> Some (Inl e, s')
           | Inr found \<Rightarrow> if found then Some (Inr msg, s') else listen_for_message n s'))"

text \<open>
  \<^verbatim>\<open>_send_devtools_cmd\<close>. A connection object is truthy, so \<^verbatim>\<open>if self.websocket\<close> asks
  whether it is not \<^verbatim>\<open>None\<close>. The command is recorded as handed to \<^verbatim>\<open>send_json\<close>
  whatever the state of the connection: on a connection whose stream has already ended
  the library raises in \<^verbatim>\<open>send_json\<close>, and there the model does not follow the code.
\<close>

definition send_devtools_cmd :: "tab \<Rightarrow> (string \<times> json) list \<Rightarrow> bool \<Rightarrow> json io" where
  "send_devtools_cmd t dc receive =
     (case websocket t of
        None \<Rightarrow> Some (Inl (RuntimeError ''Websocket not opened''), t)
      | Some w \<Rightarrow>
          (let n = cmd_id t + 1;
               dc1 = dict_set ''id'' (JInt n) dc;
               w1 = w\<lparr>sent := sent w @ [JObj dc1]\<rparr>;
               t1 = t\<lparr>cmd_id := n, websocket := Some w1\<rparr>
           in if receive then
                (case listen_for_message n (inbound w1) of
                   None \<Rightarrow> None
                 | Some (r, s') \<Rightarrow> Some (r, t1\<lparr>websocket := Some (w1\<lparr>inbound := s'\<rparr>)\<rparr>))
              else Some (Inr JNull, t1)))"

text \<open>\<^verbatim>\<open>evaluate_js\<close>.\<close>

definition evaluate_js :: "tab \<Rightarrow> string \<Rightarrow> bool \<Rightarrow> bool \<Rightarrow> bool \<Rightarrow> error + inbound \<Rightarrow> json io" where
  "evaluate_js t js run_async manage_socket get_result conn =
     and_then (if manage_socket then open_websocket t conn else Some (Inr (), t)) (\<lambda>_ t.
     and_then (send_devtools_cmd t
                 [(''method'', JStr ''Runtime.evaluate''),
                  (''params'', JObj [(''expression'', JStr js),
                                     (''userGesture'', JBool True),
                                     (''awaitPromise'', JBool run_async)])]
                 get_result) (\<lambda>res t.
     and_then (if manage_socket then close_websocket t else Some (Inr (), t)) (\<lambda>_ t.
     Some (Inr res, t))))"

text \<open>A step that only computes: it raises or hands its value on.\<close>

definition lift :: "error + 'a \<Rightarrow> tab \<Rightarrow> 'a io" where
  "lift r t = Some (r, t)"

text \<open>
  The loop \<^verbatim>\<open>for x in range(3)\<close> of \<^verbatim>\<open>reload_and_evaluate\<close>, for any number of
  rounds: each round sends the evaluate command without reading a response.
\<close>

fun evaluate_rounds :: "nat \<Rightarrow> tab \<Rightarrow> string \<Rightarrow> unit io" where
  "evaluate_rounds 0 t js = Some (Inr (), t)"
| "evaluate_rounds (Suc k) t js =
     (case send_devtools_cmd t
             [(''method'', JStr ''Runtime.evaluate''),
              (''params'', JObj [(''expression'', JStr js),
                                 (''userGesture'', JBool True),
                                 (''awaitPromise'', JBool False)])]
             False of
        None \<Rightarrow> None
      | Some (Inl e, t') \<Rightarrow> Some (Inl e, t')
      | Some (Inr r, t') \<Rightarrow> evaluate_rounds k t' js)"

text \<open>
  \<^verbatim>\<open>reload_and_evaluate\<close>. The argument of \<^verbatim>\<open>Debugger.removeBreakpoint\<close> is built
  before that command is sent, so the two subscripts on \<^verbatim>\<open>breakpoint_res\<close> come first.
\<close>

definition reload_and_evaluate :: "tab \<Rightarrow> string \<Rightarrow> bool \<Rightarrow> error + inbound \<Rightarrow> unit io" where
  "reload_and_evaluate t js manage_socket conn =
     and_then (if manage_socket then open_websocket t conn else Some (Inr (), t)) (\<lambda>_ t.
     and_then (send_devtools_cmd t [(''method'', JStr ''Debugger.enable'')] True) (\<lambda>_ t.
     and_then (send_devtools_cmd t
                 [(''method'', JStr ''Debugger.setInstrumentationBreakpoint''),
                  (''params'', JObj [(''instrumentation'', JStr ''beforeScriptExecution'')])]
                 True) (\<lambda>breakpoint_res t.
     and_then (send_devtools_cmd t [(''method'', JStr ''Page.reload'')] True) (\<lambda>_ t.
     and_then (evaluate_rounds 3 t js) (\<lambda>_ t.
     and_then (lift (py_getitem breakpoint_res ''result'') t) (\<lambda>res t.
     and_then (lift (py_getitem res ''breakpointId'') t) (\<lambda>bid t.
     and_then (send_devtools_cmd t
                 [(''method'', JStr ''Debugger.removeBreakpoint''),
                  (''params'', JObj [(''breakpointId'', bid)])]
                 True) (\<lambda>_ t.
     and_then (send_devtools_cmd t [(''method'', JStr ''Debugger.resume'')] True) (\<lambda>_ t.
     and_then (send_devtools_cmd t [(''method'', JStr ''Debugger.disable'')] True) (\<lambda>_ t.
     and_then (if manage_socket then close_websocket t else Some (Inr (), t)) (\<lambda>_ t.
     Some (Inr (), t))))))))))))"

subsection \<open>The wrapper for on-load scripts\<close>

text \<open>
  Python's \<^verbatim>\<open>str.format\<close> with keyword arguments that are strings, as the wrapper uses
  it: text is copied, a doubled brace stands for one brace, and a single opening brace
  starts a replacement field whose name runs up to the next closing brace. The last
  argument is \<open>None\<close> in text and the field name read so far (reversed) inside a field.
  Conversions, format specifications and attribute or index lookups are outside this
  model (\<open>NotModelled\<close>); the template of the source has none of them. A name made
  of digits only (or the empty name) asks for a positional argument, and there is none:
  \<^verbatim>\<open>IndexError\<close>. This is the behaviour of CPython 3.6 and later, which the
  asynchronous generator of the source needs anyway.
\<close>

definition field_value :: "(string \<times> string) list \<Rightarrow> string \<Rightarrow> error + string" where
  "field_value kwargs name =
     (if list_all (\<lambda>c. c \<in> set ''0123456789'') name then Inl IndexError
      else case map_of kwargs name of None \<Rightarrow> Inl (KeyError name) | Some v \<Rightarrow> Inr v)"

definition emit :: "string \<Rightarrow> error + string \<Rightarrow> error + string" where
  "emit out r = (case r of Inl e \<Rightarrow> Inl e | Inr s \<Rightarrow> Inr (out @ s))"

fun py_format :: "(string \<times> string) list \<Rightarrow> string \<Rightarrow> string option \<Rightarrow> error + string" where
  "py_format kwargs [] None = Inr []"
| "py_format kwargs [] (Some acc) = Inl (ValueError ''expected '}' before end of string'')"
| "py_format kwargs (c # cs) None =
     (if c = CHR ''{'' then
        (case cs of
           [] \<Rightarrow> Inl (ValueError ''Single '{' encountered in format string'')
         | d # ds \<Rightarrow>
             if d = CHR ''{'' then emit ''{'' (py_format kwargs ds None)
             else py_format kwargs cs (Some []))
      else if c = CHR ''}'' then
        (case cs of
           [] \<Rightarrow> Inl (ValueError ''Single '}' encountered in format string'')
         | d # ds \<Rightarrow>
             if d = CHR ''}'' then emit ''}'' (py_format kwargs ds None)
             else Inl (ValueError ''Single '}' encountered in format string''))
      else emit [c] (py_format kwargs cs None))"
| "py_format kwargs (c # cs) (Some acc) =
     (if c = CHR ''{'' then Inl (ValueError ''unexpected '{' in field name'')
      else if c = CHR ''}'' then
        (case field_value kwargs (rev acc) of
           Inl e \<Rightarrow> Inl e
         | Inr v \<Rightarrow> emit v (py_format kwargs cs None))
      else if c \<in> set '':![.'' then Inl NotModelled
      else py_format kwargs cs (Some (c # acc)))"

text \<open>The string literal of \<^verbatim>\<open>add_script_to_evaluate_on_new_document\<close>, line by line.\<close>

definition wrappedjs_template :: string where
  "wrappedjs_template =
     ''\<newline>'' @
     ''        function scriptFunc() {\<newline>'' @
     ''            {js}\<newline>'' @
     ''        }\<newline>'' @
     ''        if (document.readyState === 'loading') {\<newline>'' @
     ''            addEventListener('DOMContentLoaded', () => {\<newline>'' @
     ''            scriptFunc();\<newline>'' @
     ''        });\<newline>'' @
     ''        } else {\<newline>'' @
     ''            scriptFunc();\<newline>'' @
     ''        }\<newline>'' @
     ''        ''"

text \<open>
  \<^verbatim>\<open>add_script_to_evaluate_on_new_document\<close>: \<^verbatim>\<open>wrappedjs\<close> is computed before the
  socket is opened.
\<close>

definition add_script_to_evaluate_on_new_document ::
    "tab \<Rightarrow> string \<Rightarrow> bool \<Rightarrow> bool \<Rightarrow> bool \<Rightarrow> error + inbound \<Rightarrow> json io" where
  "add_script_to_evaluate_on_new_document t js add_dom_wrapper manage_socket get_result conn =
     and_then (lift (if add_dom_wrapper then py_format [(''js'', js)] wrappedjs_template None
                     else Inr js) t) (\<lambda>wrappedjs t.
     and_then (if manage_socket then open_websocket t conn else Some (Inr (), t)) (\<lambda>_ t.
     and_then (send_devtools_cmd t
                 [(''method'', JStr ''Page.addScriptToEvaluateOnNewDocument''),
                  (''params'', JObj [(''source'', JStr wrappedjs)])]
                 get_result) (\<lambda>res t.
     and_then (if manage_socket then close_websocket t else Some (Inr (), t)) (\<lambda>_ t.
     Some (Inr res, t)))))"

subsection \<open>Discovery\<close>

text \<open>
  What \<^verbatim>\<open>web.get\<close> gives: the status, what \<^verbatim>\<open>res.text()\<close> returns and what
  \<^verbatim>\<open>res.json()\<close> returns or raises.
\<close>

record response =
  status :: int
  res_text :: string
  res_json :: "error + json"

text \<open>
  The host over the successive attempts of \<^verbatim>\<open>get_tabs\<close>: it refuses the connection
  (\<^verbatim>\<open>ClientConnectorError\<close>) and goes on, or \<^verbatim>\<open>web.get\<close> raises something else, or it
  answers. A host may refuse forever.
\<close>

codatatype host =
    Refused host
  | Raised error
  | Responded response

text \<open>
  The loop \<^verbatim>\<open>while True\<close> of \<^verbatim>\<open>get_tabs\<close>; the list holds the arguments of the calls
  of \<^verbatim>\<open>sleep\<close> so far, in seconds.
\<close>

partial_function (option) get_loop :: "host \<Rightarrow> int list \<Rightarrow> ((error + response) \<times> int list) option" where
  "get_loop h slept =
     (case h of
        Refused h' \<Rightarrow> get_loop h' (slept @ [5])
      | Raised e \<Rightarrow> Some (Inl e, slept)
      | Responded r \<Rightarrow> Some (Inr r, slept))"

text \<open>\<^verbatim>\<open>for i in r\<close>: the elements of a list, the keys of a dict, the characters of a string.\<close>

fun py_iter :: "json \<Rightarrow> error + json list" where
  "py_iter (JArr xs) = Inr xs"
| "py_iter (JObj kvs) = Inr (map (\<lambda>p. JStr (fst p)) kvs)"
| "py_iter (JStr s) = Inr (map (\<lambda>c. JStr [c]) s)"
| "py_iter JNull = Inl TypeError"
| "py_iter (JBool b) = Inl TypeError"
| "py_iter (JInt i) = Inl TypeError"

text \<open>\<^verbatim>\<open>[Tab(i) for i in r]\<close>: the first entry that cannot be read raises.\<close>

fun tabs_of :: "json list \<Rightarrow> error + tab list" where
  "tabs_of [] = Inr []"
| "tabs_of (i # r) =
     (case Tab_init i of
        Inl e \<Rightarrow> Inl e
      | Inr t \<Rightarrow> (case tabs_of r of Inl e \<Rightarrow> Inl e | Inr ts \<Rightarrow> Inr (t # ts)))"

definition get_tabs :: "host \<Rightarrow> ((error + tab list) \<times> int list) option" where
  "get_tabs h =
     (case get_loop h [] of
        None \<Rightarrow> None
      | Some (Inl e, slept) \<Rightarrow> Some (Inl e, slept)
      | Some (Inr res, slept) \<Rightarrow>
          if status res = 200 then
            (case res_json res of
               Inl e \<Rightarrow> Some (Inl e, slept)
             | Inr r \<Rightarrow>
                 (case py_iter r of
                    Inl e \<Rightarrow> Some (Inl e, slept)
                  | Inr entries \<Rightarrow> Some (tabs_of entries, slept)))
          else Some (Inl (Exception (''/json did not return 200. '' @ res_text res)), slept))"

text \<open>
  \<^verbatim>\<open>get_tab\<close>: a \<^verbatim>\<open>Tab\<close> object is truthy, so \<^verbatim>\<open>not tab\<close> holds only for \<^verbatim>\<open>None\<close>. A
  title equals the string \<^verbatim>\<open>tab_name\<close> when it is that string.
\<close>

definition get_tab :: "host \<Rightarrow> string \<Rightarrow> ((error + tab) \<times> int list) option" where
  "get_tab h tab_name =
     (case get_tabs h of
        None \<Rightarrow> None
      | Some (Inl e, slept) \<Rightarrow> Some (Inl e, slept)
      | Some (Inr tabs, slept) \<Rightarrow>
          (case find (\<lambda>i. title i = JStr tab_name) tabs of
             None \<Rightarrow> Some (Inl (ValueError (''Tab '' @ tab_name @ '' not found'')), slept)
           | Some tab \<Rightarrow> Some (Inr tab, slept)))"

subsection \<open>The existence check\<close>

text \<open>\<^verbatim>\<open>except ValueError\<close>.\<close>

fun is_ValueError :: "error \<Rightarrow> bool" where
  "is_ValueError (ValueError m) = True"
| "is_ValueError e = False"

text \<open>
  Lines 275 to 278 of the source: the three membership tests, from left to right, and
  the value.
\<close>

definition result_value :: "json \<Rightarrow> error + json" where
  "result_value res =
     (case py_in ''result'' res of Inl e \<Rightarrow> Inl e | Inr in1 \<Rightarrow>
        if \<not> in1 then Inr (JBool False)
        else (case py_getitem res ''result'' of Inl e \<Rightarrow> Inl e | Inr r1 \<Rightarrow>
          (case py_in ''result'' r1 of Inl e \<Rightarrow> Inl e | Inr in2 \<Rightarrow>
             if \<not> in2 then Inr (JBool False)
             else (case py_getitem r1 ''result'' of Inl e \<Rightarrow> Inl e | Inr r2 \<Rightarrow>
               (case py_in ''value'' r2 of Inl e \<Rightarrow> Inl e | Inr in3 \<Rightarrow>
                  if \<not> in3 then Inr (JBool False)
                  else py_getitem r2 ''value'')))))"

text \<open>The f-string of \<^verbatim>\<open>tab_has_global_var\<close>, the expression sent for evaluation.\<close>

definition global_var_expression :: "string \<Rightarrow> string" where
  "global_var_expression var_name =
     ''window['' @ [CHR 0x27] @ var_name @ '''] !== null && window['' @ [CHR 0x27]
       @ var_name @ '''] !== undefined''"

text \<open>
  \<^verbatim>\<open>tab_has_global_var\<close>: \<open>h\<close> is the host that \<^verbatim>\<open>get_tabs\<close> meets and \<open>conn\<close> what
  opening the socket of the tab found does.
\<close>

definition tab_has_global_var ::
    "host \<Rightarrow> error + inbound \<Rightarrow> string \<Rightarrow> string \<Rightarrow> ((error + json) \<times> int list) option" where
  "tab_has_global_var h conn tab_name var_name =
     (case get_tab h tab_name of
        None \<Rightarrow> None
      | Some (Inl e, slept) \<Rightarrow>
          if is_ValueError e then Some (Inr (JBool False), slept) else Some (Inl e, slept)
      | Some (Inr tab, slept) \<Rightarrow>
          (case evaluate_js tab (global_var_expression var_name) False True True conn of
             None \<Rightarrow> None
           | Some (Inl e, t) \<Rightarrow> Some (Inl e, slept)
           | Some (Inr res, t) \<Rightarrow> Some (result_value res, slept)))"

subsection \<open>Sessions\<close>

text \<open>
  The states one \<^verbatim>\<open>Tab\<close> object goes through: it is constructed from an entry of the
  listing, and then its socket is opened or closed and commands are sent on it, in any
  order and with any outcome.
\<close>

inductive session :: "tab \<Rightarrow> bool" where
  created: "Tab_init res = Inr t \<Longrightarrow> session t"
| opened: "session t \<Longrightarrow> open_websocket t conn = Some (r, t') \<Longrightarrow> session t'"
| closed: "session t \<Longrightarrow> close_websocket t = Some (r, t') \<Longrightarrow> session t'"
| commanded: "session t \<Longrightarrow> send_devtools_cmd t dc receive = Some (r', t') \<Longrightarrow> session t'"

text \<open>The id that a message carries, when it is an object with an integer under \<^verbatim>\<open>id\<close>.\<close>

fun command_id :: "json \<Rightarrow> int option" where
  "command_id (JObj kvs) = (case map_of kvs ''id'' of Some (JInt i) \<Rightarrow> Some i | _ \<Rightarrow> None)"
| "command_id m = None"

text \<open>
  The invariant of a session: the commands handed to the current connection carry the
  ids up to the counter, one after the other.
\<close>

definition ids_inv :: "tab \<Rightarrow> bool" where
  "ids_inv t = (0 \<le> cmd_id t \<and>
     (case websocket t of
        None \<Rightarrow> True
      | Some w \<Rightarrow> int (length (sent w)) \<le> cmd_id t \<and>
          map command_id (sent w) = map Some [cmd_id t - int (length (sent w)) + 1 .. cmd_id t]))"

subsection \<open>Values for the examples\<close>

definition example_entry :: json where
  "example_entry =
     JObj [(''title'', JStr ''SP''), (''id'', JStr ''A1''),
           (''webSocketDebuggerUrl'', JStr ''ws://localhost:8080/devtools/page/A1'')]"

definition example_tab :: tab where
  "example_tab =
     \<lparr>title = JStr ''SP'', tab_id = JStr ''A1'',
      ws_url = JStr ''ws://localhost:8080/devtools/page/A1'',
      websocket = None, client = None, cmd_id = 0\<rparr>"

text \<open>The example tab with an open connection that will deliver the given stream.\<close>

definition example_session :: "inbound \<Rightarrow> tab" where
  "example_session s =
     example_tab\<lparr>websocket := Some \<lparr>sent = [], inbound = s\<rparr>, client := Some ClientOpen\<rparr>"

definition paused_event :: json where
  "paused_event = JObj [(''method'', JStr ''Debugger.paused''), (''params'', JObj [])]"

definition response_to :: "int \<Rightarrow> json \<Rightarrow> json" where
  "response_to i r = JObj [(''id'', JInt i), (''result'', r)]"

text \<open>An entry of the listing as the host sends it for a tab, and the Tab made from it.\<close>

definition listing_entry :: "string \<Rightarrow> string \<Rightarrow> json" where
  "listing_entry ttl i =
     JObj [(''title'', JStr ttl), (''id'', JStr i),
           (''webSocketDebuggerUrl'', JStr (''ws://localhost:8080/devtools/page/'' @ i))]"

definition listed_tab :: "string \<Rightarrow> string \<Rightarrow> tab" where
  "listed_tab ttl i =
     \<lparr>title = JStr ttl, tab_id = JStr i,
      ws_url = JStr (''ws://localhost:8080/devtools/page/'' @ i),
      websocket = None, client = None, cmd_id = 0\<rparr>"

definition ok_response :: "json \<Rightarrow> response" where
  "ok_response body = \<lparr>status = 200, res_text = [], res_json = Inr body\<rparr>"

definition error_response :: response where
  "error_response =
     \<lparr>status = 500, res_text = ''internal error'',
      res_json = Inl (ValueError ''Expecting value'')\<rparr>"

text \<open>An entry without \<^verbatim>\<open>webSocketDebuggerUrl\<close>.\<close>

definition attached_entry :: json where
  "attached_entry = JObj [(''title'', JStr ''SP''), (''id'', JStr ''A1'')]"

text \<open>A host that answers at once, with two tabs of the same title in its listing.\<close>

definition example_host :: host where
  "example_host =
     Responded (ok_response
       (JArr [listing_entry ''A'' ''1'', listing_entry ''B'' ''2'', listing_entry ''A'' ''3'']))"

text \<open>
  The commands that claim C3 lists for \<^verbatim>\<open>reload_and_evaluate\<close>, in its order, as they
  are handed to the socket when the counter stands at \<open>c\<close>: the dict of each call with
  the assigned id added last.
\<close>

definition reload_commands :: "int \<Rightarrow> string \<Rightarrow> json \<Rightarrow> json list" where
  "reload_commands c js bid =
     [JObj [(''method'', JStr ''Debugger.enable''), (''id'', JInt (c + 1))],
      JObj [(''method'', JStr ''Debugger.setInstrumentationBreakpoint''),
            (''params'', JObj [(''instrumentation'', JStr ''beforeScriptExecution'')]),
            (''id'', JInt (c + 2))],
      JObj [(''method'', JStr ''Page.reload''), (''id'', JInt (c + 3))],
      JObj [(''method'', JStr ''Runtime.evaluate''),
            (''params'', JObj [(''expression'', JStr js), (''userGesture'', JBool True),
                               (''awaitPromise'', JBool False)]),
            (''id'', JInt (c + 4))],
      JObj [(''method'', JStr ''Runtime.evaluate''),
            (''params'', JObj [(''expression'', JStr js), (''userGesture'', JBool True),
                               (''awaitPromise'', JBool False)]),
            (''id'', JInt (c + 5))],
      JObj [(''method'', JStr ''Runtime.evaluate''),
            (''params'', JObj [(''expression'', JStr js), (''userGesture'', JBool True),
                               (''awaitPromise'', JBool False)]),
            (''id'', JInt (c + 6))],
      JObj [(''method'', JStr ''Debugger.removeBreakpoint''),
            (''params'', JObj [(''breakpointId'', bid)]),
            (''id'', JInt (c + 7))],
      JObj [(''method'', JStr ''Debugger.resume''), (''id'', JInt (c + 8))],
      JObj [(''method'', JStr ''Debugger.disable''), (''id'', JInt (c + 9))]]"

section \<open>Properties\<close>

subsection \<open>The receive loop\<close>

lemma listen_for_message_Closed: "listen_for_message n Closed = Some (Inr JNull, Closed)"
  by (subst listen_for_message.simps) simp

lemma listen_for_message_Silent: "listen_for_message n Silent = None"
  by (subst listen_for_message.simps) simp

lemma listen_for_message_Frame:
  "listen_for_message n (Frame msg s) =
     (case msg_matches msg n of
        Inl e \<Rightarrow> Some (Inl e, s)
      | Inr found \<Rightarrow> if found then Some (Inr msg, s) else listen_for_message n s)"
  by (subst listen_for_message.simps) simp

lemma msg_matches_JObj:
  "msg_matches (JObj kvs) n =
     Inr (case map_of kvs ''id'' of None \<Rightarrow> False | Some v \<Rightarrow> py_eq_int v n)"
  by (simp add: msg_matches_def split: option.splits)

lemma listen_for_message_skip:
  assumes "\<forall>x\<in>set pre. msg_matches x n = Inr False"
  shows "listen_for_message n (prepend pre s) = listen_for_message n s"
  using assms by (induction pre) (simp_all add: listen_for_message_Frame)

lemma unrelated_not_matching:
  assumes "\<exists>kvs. x = JObj kvs \<and>
             (map_of kvs ''id'' = None \<or> (\<exists>j. map_of kvs ''id'' = Some (JInt j) \<and> j \<noteq> n))"
  shows "msg_matches x n = Inr False"
  using assms by (auto simp: msg_matches_JObj)

lemma map_of_dict_set: "map_of (dict_set k v dc) k = Some v"
  by (induction dc) auto

subsection \<open>Sending a command\<close>

text \<open>
  C9: a command sent on a Tab whose websocket was never opened (\<^verbatim>\<open>self.websocket\<close> is
  still \<^verbatim>\<open>None\<close>) raises \<^verbatim>\<open>RuntimeError("Websocket not opened")\<close>, the error the
  specification calls NotConnectedError. The Tab is left as it was: nothing is handed to
  a socket and the counter is not advanced.
\<close>

theorem send_on_unopened_fails:
  assumes "websocket t = None"
  shows "send_devtools_cmd t dc receive = Some (Inl (RuntimeError ''Websocket not opened''), t)"
  using assms by (simp add: send_devtools_cmd_def)

theorem send_on_unopened_fails_witness:
  "send_devtools_cmd example_tab [(''method'', JStr ''Page.enable'')] False =
     Some (Inl (RuntimeError ''Websocket not opened''), example_tab)"
proof -
  have h: "websocket example_tab = None"
    by (simp add: example_tab_def)
  show ?thesis
    using send_on_unopened_fails [OF h] by simp
qed

text \<open>
  C1: on an open connection, a command sent with \<^verbatim>\<open>receive=True\<close> reads the inbound
  stream, drops every message in front that is an event (an object without \<^verbatim>\<open>id\<close>) or
  carries another id, and returns the first message whose id is the one just assigned,
  \<^verbatim>\<open>cmd_id + 1\<close>. What is left of the stream starts right after that message. The Tab
  \<open>t\<close> is arbitrary, so this holds for each command of any sequence sent on one session.
\<close>

theorem send_returns_first_matching_response:
  assumes "websocket t = Some w"
    and "inbound w = prepend pre (Frame m rest)"
    and "\<forall>x\<in>set pre. \<exists>kvs. x = JObj kvs \<and>
           (map_of kvs ''id'' = None \<or>
            (\<exists>j. map_of kvs ''id'' = Some (JInt j) \<and> j \<noteq> cmd_id t + 1))"
    and "m = JObj kvs" and "map_of kvs ''id'' = Some (JInt (cmd_id t + 1))"
  shows "send_devtools_cmd t dc True =
           Some (Inr m,
                 t\<lparr>cmd_id := cmd_id t + 1,
                   websocket :=
                     Some \<lparr>sent = sent w @ [JObj (dict_set ''id'' (JInt (cmd_id t + 1)) dc)],
                           inbound = rest\<rparr>\<rparr>)"
proof -
  let ?n = "cmd_id t + 1"
  have skip: "\<forall>x\<in>set pre. msg_matches x ?n = Inr False"
    using assms(3) by (blast intro: unrelated_not_matching)
  have hit: "msg_matches m ?n = Inr True"
    using assms(4,5) by (simp add: msg_matches_JObj)
  have "listen_for_message ?n (inbound w) = Some (Inr m, rest)"
    using skip hit by (simp add: assms(2) listen_for_message_skip listen_for_message_Frame)
  then show ?thesis
    using assms(1) by (simp add: send_devtools_cmd_def Let_def)
qed

theorem send_returns_first_matching_response_witness:
  "send_devtools_cmd
     (example_session
        (Frame paused_event (Frame (response_to 7 (JObj []))
          (Frame (response_to 1 (JObj [])) (Frame (response_to 1 (JStr ''late'')) Closed)))))
     [(''method'', JStr ''Page.reload'')] True =
   Some (Inr (response_to 1 (JObj [])),
         example_tab\<lparr>websocket :=
                       Some \<lparr>sent = [JObj [(''method'', JStr ''Page.reload''), (''id'', JInt 1)]],
                             inbound = Frame (response_to 1 (JStr ''late'')) Closed\<rparr>,
                     client := Some ClientOpen, cmd_id := 1\<rparr>)"
proof -
  let ?s = "Frame paused_event (Frame (response_to 7 (JObj []))
              (Frame (response_to 1 (JObj [])) (Frame (response_to 1 (JStr ''late'')) Closed)))"
  let ?w = "\<lparr>sent = [], inbound = ?s\<rparr>"
  have h1: "websocket (example_session ?s) = Some ?w"
    by (simp add: example_session_def)
  have h2: "inbound ?w =
      prepend [paused_event, response_to 7 (JObj [])]
        (Frame (response_to 1 (JObj [])) (Frame (response_to 1 (JStr ''late'')) Closed))"
    by simp
  have h3: "\<forall>x\<in>set [paused_event, response_to 7 (JObj [])]. \<exists>kvs. x = JObj kvs \<and>
           (map_of kvs ''id'' = None \<or>
            (\<exists>j. map_of kvs ''id'' = Some (JInt j) \<and> j \<noteq> cmd_id (example_session ?s) + 1))"
    by (simp add: paused_event_def response_to_def example_session_def example_tab_def)
  have h4: "response_to 1 (JObj []) = JObj [(''id'', JInt 1), (''result'', JObj [])]"
    by (simp add: response_to_def)
  have h5: "map_of [(''id'', JInt 1), (''result'', JObj [])] ''id'' =
              Some (JInt (cmd_id (example_session ?s) + 1))"
    by (simp add: example_session_def example_tab_def)
  show ?thesis
    using send_returns_first_matching_response [OF h1 h2 h3 h4 h5]
    by (simp add: example_session_def example_tab_def)
qed

text \<open>
  C10: on an open connection, when the inbound stream ends before a message with the
  assigned id has come (every message before the end is an event or carries another id),
  a command sent with \<^verbatim>\<open>receive=True\<close> returns \<^verbatim>\<open>None\<close> (here \<open>JNull\<close>) and raises
  nothing, and so does \<^verbatim>\<open>evaluate_js\<close> with \<^verbatim>\<open>get_result=True\<close> on that connection.
\<close>

theorem send_returns_none_when_stream_ends:
  assumes "websocket t = Some w"
    and "inbound w = prepend pre Closed"
    and "\<forall>x\<in>set pre. \<exists>kvs. x = JObj kvs \<and>
           (map_of kvs ''id'' = None \<or>
            (\<exists>j. map_of kvs ''id'' = Some (JInt j) \<and> j \<noteq> cmd_id t + 1))"
  shows "send_devtools_cmd t dc True =
           Some (Inr JNull,
                 t\<lparr>cmd_id := cmd_id t + 1,
                   websocket :=
                     Some \<lparr>sent = sent w @ [JObj (dict_set ''id'' (JInt (cmd_id t + 1)) dc)],
                           inbound = Closed\<rparr>\<rparr>)
       \<and> (\<exists>t'. evaluate_js t js run_async False True conn = Some (Inr JNull, t'))"
proof -
  let ?n = "cmd_id t + 1"
  have skip: "\<forall>x\<in>set pre. msg_matches x ?n = Inr False"
    using assms(3) by (blast intro: unrelated_not_matching)
  have "listen_for_message ?n (inbound w) = Some (Inr JNull, Closed)"
    using skip by (simp add: assms(2) listen_for_message_skip listen_for_message_Closed)
  then have send: "send_devtools_cmd t dc' True =
           Some (Inr JNull,
                 t\<lparr>cmd_id := cmd_id t + 1,
                   websocket :=
                     Some \<lparr>sent = sent w @ [JObj (dict_set ''id'' (JInt (cmd_id t + 1)) dc')],
                           inbound = Closed\<rparr>\<rparr>)" for dc'
    using assms(1) by (simp add: send_devtools_cmd_def Let_def)
  show ?thesis
    by (simp add: send evaluate_js_def and_then_def)
qed

theorem send_returns_none_when_stream_ends_witness:
  "send_devtools_cmd
     (example_session (Frame paused_event (Frame (response_to 7 (JObj [])) Closed)))
     [(''method'', JStr ''Page.reload'')] True =
   Some (Inr JNull,
         example_tab\<lparr>websocket :=
                       Some \<lparr>sent = [JObj [(''method'', JStr ''Page.reload''), (''id'', JInt 1)]],
                             inbound = Closed\<rparr>,
                     client := Some ClientOpen, cmd_id := 1\<rparr>)
   \<and> (\<exists>t'. evaluate_js
              (example_session (Frame paused_event (Frame (response_to 7 (JObj [])) Closed)))
              ''1 + 1'' False False True (Inr Closed) = Some (Inr JNull, t'))"
proof -
  let ?s = "Frame paused_event (Frame (response_to 7 (JObj [])) Closed)"
  let ?w = "\<lparr>sent = [], inbound = ?s\<rparr>"
  have h1: "websocket (example_session ?s) = Some ?w"
    by (simp add: example_session_def)
  have h2: "inbound ?w = prepend [paused_event, response_to 7 (JObj [])] Closed"
    by simp
  have h3: "\<forall>x\<in>set [paused_event, response_to 7 (JObj [])]. \<exists>kvs. x = JObj kvs \<and>
           (map_of kvs ''id'' = None \<or>
            (\<exists>j. map_of kvs ''id'' = Some (JInt j) \<and> j \<noteq> cmd_id (example_session ?s) + 1))"
    by (simp add: paused_event_def response_to_def example_session_def example_tab_def)
  show ?thesis
    using send_returns_none_when_stream_ends [OF h1 h2 h3,
        of "[(''method'', JStr ''Page.reload'')]" "''1 + 1''" False "Inr Closed"]
    by (simp add: example_session_def example_tab_def)
qed

subsection \<open>Command ids\<close>

lemma Tab_init_fresh:
  assumes "Tab_init res = Inr t"
  shows "cmd_id t = 0 \<and> websocket t = None"
  using assms by (auto simp: Tab_init_def split: sum.splits)

lemma send_devtools_cmd_step:
  assumes "websocket t = Some w" and "send_devtools_cmd t dc receive = Some (r, t')"
  shows "cmd_id t' = cmd_id t + 1 \<and>
         (\<exists>w'. websocket t' = Some w' \<and>
               sent w' = sent w @ [JObj (dict_set ''id'' (JInt (cmd_id t + 1)) dc)])"
  using assms
  by (auto simp: send_devtools_cmd_def Let_def split: if_splits option.splits)

lemma session_ids_inv: "session t \<Longrightarrow> ids_inv t"
proof (induction rule: session.induct)
  case (created res t)
  then show ?case
    using Tab_init_fresh by (simp add: ids_inv_def)
next
  case (opened t conn r t')
  then show ?case
    by (auto simp: ids_inv_def open_websocket_def Let_def split: sum.splits option.splits)
next
  case (closed t r t')
  then show ?case
    by (auto simp: ids_inv_def close_websocket_def split: option.splits)
next
  case (commanded t dc receive r' t')
  show ?case
  proof (cases "websocket t")
    case None
    with commanded show ?thesis
      by (simp add: send_devtools_cmd_def)
  next
    case (Some w)
    from send_devtools_cmd_step[OF Some commanded.hyps(2)]
    obtain w' where c: "cmd_id t' = cmd_id t + 1"
      and w': "websocket t' = Some w'"
      and s': "sent w' = sent w @ [JObj (dict_set ''id'' (JInt (cmd_id t + 1)) dc)]"
      by blast
    from commanded.IH Some have le: "int (length (sent w)) \<le> cmd_id t"
      and ids: "map command_id (sent w) = map Some [cmd_id t - int (length (sent w)) + 1 .. cmd_id t]"
      and nn: "0 \<le> cmd_id t"
      by (simp_all add: ids_inv_def)
    have up: "[cmd_id t - int (length (sent w)) + 1 .. cmd_id t + 1] =
              [cmd_id t - int (length (sent w)) + 1 .. cmd_id t] @ [cmd_id t + 1]"
      using le by (simp add: upto_rec2)
    show ?thesis
      using c w' s' le ids nn up by (simp add: ids_inv_def map_of_dict_set)
  qed
qed

lemma sorted_upto_strict: "sorted_wrt (<) [i..j]"
  by (simp add: sorted_wrt_iff_nth_less)

text \<open>
  C2: the counter belongs to the Tab object. It is 0 when the object is constructed;
  each send on an open connection first adds 1 to it and then hands over the command
  with the new value as its id; so in every state a session can reach, the commands
  handed to its connection carry strictly increasing, pairwise different, positive ids
  that do not exceed the counter.
\<close>

theorem command_ids_strictly_increasing:
  assumes "session t" and "websocket t = Some w"
  shows "(\<exists>ids. map command_id (sent w) = map Some ids \<and> sorted_wrt (<) ids \<and> distinct ids
           \<and> (\<forall>i\<in>set ids. 0 < i \<and> i \<le> cmd_id t))
       \<and> (\<forall>res t0. Tab_init res = Inr t0 \<longrightarrow> cmd_id t0 = 0)
       \<and> (\<forall>dc receive r t'. send_devtools_cmd t dc receive = Some (r, t') \<longrightarrow>
            cmd_id t' = cmd_id t + 1 \<and>
            (\<exists>w'. websocket t' = Some w' \<and>
                  sent w' = sent w @ [JObj (dict_set ''id'' (JInt (cmd_id t + 1)) dc)]))"
proof -
  let ?ids = "[cmd_id t - int (length (sent w)) + 1 .. cmd_id t]"
  from session_ids_inv[OF assms(1)] assms(2)
  have le: "int (length (sent w)) \<le> cmd_id t"
    and ids: "map command_id (sent w) = map Some ?ids"
    by (simp_all add: ids_inv_def)
  have "sorted_wrt (<) ?ids" by (rule sorted_upto_strict)
  moreover have "distinct ?ids" by simp
  moreover have "\<forall>i\<in>set ?ids. 0 < i \<and> i \<le> cmd_id t" using le by auto
  ultimately have a: "\<exists>ids. map command_id (sent w) = map Some ids \<and> sorted_wrt (<) ids
           \<and> distinct ids \<and> (\<forall>i\<in>set ids. 0 < i \<and> i \<le> cmd_id t)"
    using ids by blast
  have b: "\<forall>res t0. Tab_init res = Inr t0 \<longrightarrow> cmd_id t0 = 0"
    using Tab_init_fresh by blast
  have c: "\<forall>dc receive r t'. send_devtools_cmd t dc receive = Some (r, t') \<longrightarrow>
            cmd_id t' = cmd_id t + 1 \<and>
            (\<exists>w'. websocket t' = Some w' \<and>
                  sent w' = sent w @ [JObj (dict_set ''id'' (JInt (cmd_id t + 1)) dc)])"
    using send_devtools_cmd_step[OF assms(2)] by blast
  show ?thesis using a b c by blast
qed

theorem command_ids_strictly_increasing_witness:
  "Tab_init example_entry = Inr example_tab
   \<and> send_devtools_cmd (example_session Closed) [(''method'', JStr ''Page.enable'')] False =
       Some (Inr JNull,
             example_tab\<lparr>websocket :=
                           Some \<lparr>sent = [JObj [(''method'', JStr ''Page.enable''), (''id'', JInt 1)]],
                                 inbound = Closed\<rparr>,
                         client := Some ClientOpen, cmd_id := 1\<rparr>)
   \<and> (\<exists>ids. map command_id
              [JObj [(''method'', JStr ''Page.enable''), (''id'', JInt 1)],
               JObj [(''method'', JStr ''Page.disable''), (''id'', JInt 2)]] = map Some ids
            \<and> sorted_wrt (<) ids \<and> distinct ids)"
proof -
  let ?c1 = "JObj [(''method'', JStr ''Page.enable''), (''id'', JInt 1)]"
  let ?c2 = "JObj [(''method'', JStr ''Page.disable''), (''id'', JInt 2)]"
  let ?t1 = "example_tab\<lparr>websocket := Some \<lparr>sent = [?c1], inbound = Closed\<rparr>,
                         client := Some ClientOpen, cmd_id := 1\<rparr>"
  let ?w2 = "\<lparr>sent = [?c1, ?c2], inbound = Closed\<rparr>"
  let ?t2 = "example_tab\<lparr>websocket := Some ?w2, client := Some ClientOpen, cmd_id := 2\<rparr>"
  have i: "Tab_init example_entry = Inr example_tab"
    by (simp add: Tab_init_def example_entry_def example_tab_def)
  have o: "open_websocket example_tab (Inr Closed) = Some (Inr (), example_session Closed)"
    by (simp add: open_websocket_def example_session_def example_tab_def)
  have c1: "send_devtools_cmd (example_session Closed) [(''method'', JStr ''Page.enable'')] False =
              Some (Inr JNull, ?t1)"
    by (simp add: send_devtools_cmd_def example_session_def example_tab_def)
  have c2: "send_devtools_cmd ?t1 [(''method'', JStr ''Page.disable'')] False =
              Some (Inr JNull, ?t2)"
    by (simp add: send_devtools_cmd_def example_tab_def)
  have s: "session ?t2"
    using session.created [OF i] o c1 c2 by (blast intro: session.opened session.commanded)
  have w: "websocket ?t2 = Some ?w2"
    by simp
  from command_ids_strictly_increasing [OF s w]
  have "\<exists>ids. map command_id (sent ?w2) = map Some ids \<and> sorted_wrt (<) ids \<and> distinct ids"
    by blast
  then show ?thesis
    using i c1 by simp
qed

subsection \<open>Discovery\<close>

lemma get_loop_Refused: "get_loop (Refused h) slept = get_loop h (slept @ [5])"
  by (subst get_loop.simps) simp

lemma get_loop_Raised: "get_loop (Raised e) slept = Some (Inl e, slept)"
  by (subst get_loop.simps) simp

lemma get_loop_Responded: "get_loop (Responded r) slept = Some (Inr r, slept)"
  by (subst get_loop.simps) simp

lemma get_loop_retry: "get_loop ((Refused ^^ n) h) slept = get_loop h (slept @ replicate n 5)"
proof (induction n arbitrary: slept)
  case 0
  show ?case by simp
next
  case (Suc n)
  have "get_loop ((Refused ^^ Suc n) h) slept = get_loop ((Refused ^^ n) h) (slept @ [5])"
    by (simp add: get_loop_Refused)
  also have "\<dots> = get_loop h ((slept @ [5]) @ replicate n 5)"
    by (rule Suc.IH)
  finally show ?case by simp
qed

text \<open>What \<^verbatim>\<open>get_tabs\<close> makes of the response of a host that refused \<open>n\<close> times before.\<close>

lemma get_tabs_after_retries:
  "get_tabs ((Refused ^^ n) (Responded r)) =
     Some (if status r = 200 then
             (case res_json r of
                Inl e \<Rightarrow> Inl e
              | Inr body \<Rightarrow> (case py_iter body of Inl e \<Rightarrow> Inl e | Inr entries \<Rightarrow> tabs_of entries))
           else Inl (Exception (''/json did not return 200. '' @ res_text r)),
           replicate n 5)"
  by (simp add: get_tabs_def get_loop_retry get_loop_Responded split: sum.splits)

text \<open>
  C6: when the host refuses the connection \<open>n\<close> times and then answers, \<^verbatim>\<open>get_tabs\<close>
  returns; it has slept \<open>n\<close> times, 5 seconds each, and its outcome is the one that the
  same answer gives on a first attempt, so no refusal reaches the caller.
\<close>

theorem get_tabs_retries_until_host_answers:
  "\<exists>x. get_tabs (Responded r) = Some (x, [])
      \<and> get_tabs ((Refused ^^ n) (Responded r)) = Some (x, replicate n 5)"
  using get_tabs_after_retries [of 0 r] get_tabs_after_retries [of n r] by simp

theorem get_tabs_retries_until_host_answers_witness:
  "get_tabs (Refused (Refused (Responded (ok_response (JArr [listing_entry ''SP'' ''A1''])))))
     = Some (Inr [listed_tab ''SP'' ''A1''], [5, 5])"
proof -
  have "get_tabs (Responded (ok_response (JArr [listing_entry ''SP'' ''A1'']))) =
          Some (Inr [listed_tab ''SP'' ''A1''], [])"
    by (simp add: get_tabs_def get_loop_Responded ok_response_def listing_entry_def
        listed_tab_def Tab_init_def)
  then show ?thesis
    using get_tabs_retries_until_host_answers
            [of "ok_response (JArr [listing_entry ''SP'' ''A1''])" 2]
    by (simp add: numeral_2_eq_2)
qed

lemma tabs_of_well_formed:
  assumes "\<forall>e\<in>set entries. \<exists>kvs ti i u. e = JObj kvs \<and> map_of kvs ''title'' = Some ti \<and>
             map_of kvs ''id'' = Some i \<and> map_of kvs ''webSocketDebuggerUrl'' = Some u"
  shows "\<exists>tabs. tabs_of entries = Inr tabs \<and>
           list_all2 (\<lambda>e t. py_getitem e ''title'' = Inr (title t) \<and>
                            py_getitem e ''id'' = Inr (tab_id t) \<and>
                            py_getitem e ''webSocketDebuggerUrl'' = Inr (ws_url t) \<and>
                            websocket t = None \<and> cmd_id t = 0) entries tabs"
  using assms
proof (induction entries)
  case Nil
  show ?case by simp
next
  case (Cons e entries)
  then obtain tabs where t: "tabs_of entries = Inr tabs"
    and l: "list_all2 (\<lambda>e t. py_getitem e ''title'' = Inr (title t) \<and>
                            py_getitem e ''id'' = Inr (tab_id t) \<and>
                            py_getitem e ''webSocketDebuggerUrl'' = Inr (ws_url t) \<and>
                            websocket t = None \<and> cmd_id t = 0) entries tabs"
    by auto
  from Cons.prems obtain kvs ti i u where e: "e = JObj kvs" "map_of kvs ''title'' = Some ti"
     "map_of kvs ''id'' = Some i" "map_of kvs ''webSocketDebuggerUrl'' = Some u"
    by auto
  show ?case
    using t l e by (simp add: Tab_init_def)
qed

text \<open>
  C5, as stated, fails: a status 200 does not exclude an error. With status 200 and a
  listing whose entry has no \<^verbatim>\<open>webSocketDebuggerUrl\<close>, \<^verbatim>\<open>Tab(i)\<close> raises \<^verbatim>\<open>KeyError\<close>.
\<close>

theorem get_tabs_raises_on_status_200:
  "status (ok_response (JArr [attached_entry])) = 200
   \<and> get_tabs (Responded (ok_response (JArr [attached_entry]))) =
       Some (Inl (KeyError ''webSocketDebuggerUrl''), [])"
  by (simp add: get_tabs_def get_loop_Responded ok_response_def attached_entry_def Tab_init_def)

text \<open>
  C5, amended: once the host answers (after any number of refusals), a status other than
  200 makes \<^verbatim>\<open>get_tabs\<close> raise the \<^verbatim>\<open>Exception\<close> whose message ends with the body of
  the response; a status 200 with a JSON array in which every entry is an object with
  \<^verbatim>\<open>title\<close>, \<^verbatim>\<open>id\<close> and \<^verbatim>\<open>webSocketDebuggerUrl\<close> makes it return one new Tab per
  entry, in the order of the array, with the three fields of its entry; and a status 200
  with the empty array makes it return the empty list.
\<close>

theorem get_tabs_status_and_listing:
  "(status r \<noteq> 200 \<longrightarrow>
      get_tabs ((Refused ^^ n) (Responded r)) =
        Some (Inl (Exception (''/json did not return 200. '' @ res_text r)), replicate n 5))
   \<and> (status r = 200 \<and> res_json r = Inr (JArr entries) \<and>
      (\<forall>e\<in>set entries. \<exists>kvs ti i u. e = JObj kvs \<and> map_of kvs ''title'' = Some ti \<and>
             map_of kvs ''id'' = Some i \<and> map_of kvs ''webSocketDebuggerUrl'' = Some u) \<longrightarrow>
      (\<exists>tabs. get_tabs ((Refused ^^ n) (Responded r)) = Some (Inr tabs, replicate n 5) \<and>
         list_all2 (\<lambda>e t. py_getitem e ''title'' = Inr (title t) \<and>
                            py_getitem e ''id'' = Inr (tab_id t) \<and>
                            py_getitem e ''webSocketDebuggerUrl'' = Inr (ws_url t) \<and>
                            websocket t = None \<and> cmd_id t = 0) entries tabs))
   \<and> (status r = 200 \<and> res_json r = Inr (JArr []) \<longrightarrow>
      get_tabs ((Refused ^^ n) (Responded r)) = Some (Inr [], replicate n 5))"
  using tabs_of_well_formed [of entries]
  by (auto simp: get_tabs_after_retries)

theorem get_tabs_status_and_listing_witness:
  "get_tabs (Responded error_response) =
     Some (Inl (Exception ''/json did not return 200. internal error''), [])
   \<and> get_tabs (Responded (ok_response
        (JArr [listing_entry ''SP'' ''A1'', listing_entry ''QuickAccess'' ''B2'']))) =
       Some (Inr [listed_tab ''SP'' ''A1'', listed_tab ''QuickAccess'' ''B2''], [])
   \<and> get_tabs (Responded (ok_response (JArr []))) = Some (Inr [], [])"
proof -
  let ?es = "[listing_entry ''SP'' ''A1'', listing_entry ''QuickAccess'' ''B2'']"
  have a: "status error_response \<noteq> 200"
    by (simp add: error_response_def)
  have c: "status (ok_response (JArr [])) = 200 \<and> res_json (ok_response (JArr [])) = Inr (JArr [])"
    by (simp add: ok_response_def)
  have d: "get_tabs (Responded (ok_response (JArr ?es))) =
       Some (Inr [listed_tab ''SP'' ''A1'', listed_tab ''QuickAccess'' ''B2''], [])"
    by (simp add: get_tabs_def get_loop_Responded ok_response_def listing_entry_def
        listed_tab_def Tab_init_def)
  show ?thesis
    using get_tabs_status_and_listing [where r = error_response and n = 0 and entries = "[]"]
      get_tabs_status_and_listing [where r = "ok_response (JArr [])" and n = 0 and entries = "[]"]
      a c d
    by (simp add: error_response_def)
qed

subsection \<open>Looking a tab up\<close>

lemma find_first:
  assumes "\<forall>p\<in>set pre. \<not> P p" and "P x"
  shows "find P (pre @ x # post) = Some x"
  using assms by (induction pre) simp_all

lemma find_nothing:
  assumes "\<forall>p\<in>set xs. \<not> P p"
  shows "find P xs = None"
  using assms by (induction xs) simp_all

text \<open>
  C4: on the listing that \<^verbatim>\<open>get_tabs\<close> returns, \<^verbatim>\<open>get_tab\<close> returns the first Tab, in
  the order of the listing, whose title is the requested string, and raises
  \<^verbatim>\<open>ValueError("Tab ... not found")\<close>, the TabNotFoundError of the specification, when no
  Tab has that title. With the titles A, B, A it returns the first Tab.
\<close>

theorem get_tab_returns_first_match:
  assumes "get_tabs h = Some (Inr tabs, slept)"
  shows "(tabs = pre @ tab # post \<and> (\<forall>p\<in>set pre. title p \<noteq> JStr tab_name) \<and>
          title tab = JStr tab_name \<longrightarrow>
            get_tab h tab_name = Some (Inr tab, slept))
       \<and> ((\<forall>p\<in>set tabs. title p \<noteq> JStr tab_name) \<longrightarrow>
            get_tab h tab_name =
              Some (Inl (ValueError (''Tab '' @ tab_name @ '' not found'')), slept))"
proof (intro conjI impI)
  assume "tabs = pre @ tab # post \<and> (\<forall>p\<in>set pre. title p \<noteq> JStr tab_name) \<and>
          title tab = JStr tab_name"
  then have "find (\<lambda>i. title i = JStr tab_name) tabs = Some tab"
    by (simp add: find_first)
  then show "get_tab h tab_name = Some (Inr tab, slept)"
    using assms by (simp add: get_tab_def)
next
  assume "\<forall>p\<in>set tabs. title p \<noteq> JStr tab_name"
  then have "find (\<lambda>i. title i = JStr tab_name) tabs = None"
    by (simp add: find_nothing)
  then show "get_tab h tab_name =
              Some (Inl (ValueError (''Tab '' @ tab_name @ '' not found'')), slept)"
    using assms by (simp add: get_tab_def)
qed

lemma example_host_tabs:
  "get_tabs example_host =
     Some (Inr [listed_tab ''A'' ''1'', listed_tab ''B'' ''2'', listed_tab ''A'' ''3''], [])"
  by (simp add: example_host_def get_tabs_def get_loop_Responded ok_response_def
      listing_entry_def listed_tab_def Tab_init_def)

theorem get_tab_returns_first_match_witness:
  "get_tab example_host ''A'' = Some (Inr (listed_tab ''A'' ''1''), [])
   \<and> get_tab example_host ''C'' = Some (Inl (ValueError ''Tab C not found''), [])"
proof -
  have a: "[listed_tab ''A'' ''1'', listed_tab ''B'' ''2'', listed_tab ''A'' ''3''] =
             [] @ listed_tab ''A'' ''1'' # [listed_tab ''B'' ''2'', listed_tab ''A'' ''3'']
           \<and> (\<forall>p\<in>set []. title p \<noteq> JStr ''A'') \<and> title (listed_tab ''A'' ''1'') = JStr ''A''"
    by (simp add: listed_tab_def)
  have c: "\<forall>p\<in>set [listed_tab ''A'' ''1'', listed_tab ''B'' ''2'', listed_tab ''A'' ''3''].
             title p \<noteq> JStr ''C''"
    by (simp add: listed_tab_def)
  show ?thesis
    using get_tab_returns_first_match [OF example_host_tabs, where pre = "[]" and tab = "listed_tab ''A'' ''1''"
                and post = "[listed_tab ''B'' ''2'', listed_tab ''A'' ''3'']" and tab_name = "''A''"]
      get_tab_returns_first_match [OF example_host_tabs, where pre = "[]" and tab = "listed_tab ''A'' ''1''"
                and post = "[]" and tab_name = "''C''"]
      a c
    by simp
qed

subsection \<open>The existence check\<close>

lemma tabs_of_fresh:
  assumes "tabs_of entries = Inr tabs"
  shows "\<forall>t\<in>set tabs. cmd_id t = 0"
  using assms
proof (induction entries arbitrary: tabs)
  case Nil
  then show ?case by simp
next
  case (Cons e entries)
  then show ?case
    by (auto simp: Tab_init_def split: sum.splits)
qed

lemma get_tabs_fresh:
  assumes "get_tabs h = Some (Inr tabs, slept)"
  shows "\<forall>t\<in>set tabs. cmd_id t = 0"
  using assms tabs_of_fresh
  by (auto simp: get_tabs_def split: option.splits sum.splits if_splits)

lemma find_in_set: "find P xs = Some x \<Longrightarrow> x \<in> set xs"
  by (induction xs) (auto split: if_splits)

lemma get_tab_fresh:
  assumes "get_tab h tab_name = Some (Inr tab, slept)"
  shows "cmd_id tab = 0"
  using assms get_tabs_fresh find_in_set
  by (fastforce simp: get_tab_def split: option.splits sum.splits)

lemma evaluate_js_managed:
  assumes "listen_for_message (cmd_id tab + 1) s = Some (Inr res, s')"
  shows "\<exists>t'. evaluate_js tab js run_async True True (Inr s) = Some (Inr res, t')"
  using assms
  by (simp add: evaluate_js_def and_then_def open_websocket_def send_devtools_cmd_def
      close_websocket_def Let_def)

lemma result_value_present:
  assumes "map_of kvs ''result'' = Some (JObj outer)" and "map_of outer ''result'' = Some (JObj inner)"
    and "map_of inner ''value'' = Some v"
  shows "result_value (JObj kvs) = Inr v"
  using assms by (simp add: result_value_def)

lemma result_value_missing:
  assumes "map_of kvs ''result'' = None \<or>
           (map_of kvs ''result'' = Some (JObj outer) \<and>
             (map_of outer ''result'' = None \<or>
              (map_of outer ''result'' = Some (JObj inner) \<and> map_of inner ''value'' = None)))"
  shows "result_value (JObj kvs) = Inr (JBool False)"
  using assms by (auto simp: result_value_def)

text \<open>
  C8, as stated, fails: a response in which \<^verbatim>\<open>result\<close> is present but is no object is
  missing \<^verbatim>\<open>result.result\<close>, and on it the second membership test raises
  \<^verbatim>\<open>TypeError\<close> instead of giving false. Here the response is
  \<^verbatim>\<open>{"id": 1, "result": null}\<close>.
\<close>

theorem tab_has_global_var_raises_on_null_result:
  "tab_has_global_var (Responded (ok_response (JArr [listing_entry ''SP'' ''A1''])))
     (Inr (Frame (response_to 1 JNull) Closed)) ''SP'' ''foo'' = Some (Inl TypeError, [])"
  by (simp add: tab_has_global_var_def get_tab_def get_tabs_def get_loop_Responded
      ok_response_def listing_entry_def Tab_init_def evaluate_js_def and_then_def
      open_websocket_def close_websocket_def send_devtools_cmd_def Let_def
      listen_for_message_Frame msg_matches_JObj response_to_def result_value_def)

text \<open>
  The same happens when the connection ends before the response comes: \<^verbatim>\<open>evaluate_js\<close>
  returns \<^verbatim>\<open>None\<close>, and the first membership test raises.
\<close>

lemma tab_has_global_var_raises_on_no_response:
  "tab_has_global_var (Responded (ok_response (JArr [listing_entry ''SP'' ''A1''])))
     (Inr (Frame paused_event Closed)) ''SP'' ''foo'' = Some (Inl TypeError, [])"
  by (simp add: tab_has_global_var_def get_tab_def get_tabs_def get_loop_Responded
      ok_response_def listing_entry_def Tab_init_def evaluate_js_def and_then_def
      open_websocket_def close_websocket_def send_devtools_cmd_def Let_def
      listen_for_message_Frame listen_for_message_Closed msg_matches_JObj paused_event_def
      result_value_def)

text \<open>
  C8, amended: \<^verbatim>\<open>tab_has_global_var\<close> returns false, and raises nothing, when no Tab of
  the listing has the title (the \<^verbatim>\<open>ValueError\<close> of \<^verbatim>\<open>get_tab\<close> is caught). When the
  Tab is found and the response to the evaluate command is an object, it returns the
  value under \<^verbatim>\<open>result.result.value\<close> when \<^verbatim>\<open>result\<close> and \<^verbatim>\<open>result.result\<close> are
  objects and the value is there (true for true, false for false), and it returns false,
  raising nothing, when \<^verbatim>\<open>result\<close> is absent, or is an object without \<^verbatim>\<open>result\<close>,
  or \<^verbatim>\<open>result.result\<close> is an object without \<^verbatim>\<open>value\<close>.
\<close>

theorem tab_has_global_var_results:
  "(get_tabs h = Some (Inr tabs, slept) \<and> (\<forall>p\<in>set tabs. title p \<noteq> JStr tab_name) \<longrightarrow>
      tab_has_global_var h conn tab_name var_name = Some (Inr (JBool False), slept))
   \<and> (get_tab h tab_name = Some (Inr tab, slept) \<and>
      conn = Inr (prepend pre (Frame (JObj kvs) rest)) \<and>
      (\<forall>x\<in>set pre. \<exists>xs. x = JObj xs \<and>
           (map_of xs ''id'' = None \<or> (\<exists>j. map_of xs ''id'' = Some (JInt j) \<and> j \<noteq> 1))) \<and>
      map_of kvs ''id'' = Some (JInt 1) \<longrightarrow>
        (map_of kvs ''result'' = Some (JObj outer) \<and> map_of outer ''result'' = Some (JObj inner) \<and>
         map_of inner ''value'' = Some v \<longrightarrow>
           tab_has_global_var h conn tab_name var_name = Some (Inr v, slept))
      \<and> (map_of kvs ''result'' = None \<or>
           (map_of kvs ''result'' = Some (JObj outer) \<and>
             (map_of outer ''result'' = None \<or>
              (map_of outer ''result'' = Some (JObj inner) \<and> map_of inner ''value'' = None))) \<longrightarrow>
           tab_has_global_var h conn tab_name var_name = Some (Inr (JBool False), slept)))"
proof (intro conjI impI)
  assume a: "get_tabs h = Some (Inr tabs, slept) \<and> (\<forall>p\<in>set tabs. title p \<noteq> JStr tab_name)"
  then have "find (\<lambda>i. title i = JStr tab_name) tabs = None"
    by (simp add: find_nothing)
  with a show "tab_has_global_var h conn tab_name var_name = Some (Inr (JBool False), slept)"
    by (simp add: tab_has_global_var_def get_tab_def)
next
  assume a: "get_tab h tab_name = Some (Inr tab, slept) \<and>
      conn = Inr (prepend pre (Frame (JObj kvs) rest)) \<and>
      (\<forall>x\<in>set pre. \<exists>xs. x = JObj xs \<and>
           (map_of xs ''id'' = None \<or> (\<exists>j. map_of xs ''id'' = Some (JInt j) \<and> j \<noteq> 1))) \<and>
      map_of kvs ''id'' = Some (JInt 1)"
  then have "get_tab h tab_name = Some (Inr tab, slept)"
    by simp
  then have fresh: "cmd_id tab + 1 = 1"
    by (simp add: get_tab_fresh)
  have skip: "\<forall>x\<in>set pre. msg_matches x 1 = Inr False"
    using a by (blast intro: unrelated_not_matching)
  have "listen_for_message (cmd_id tab + 1) (prepend pre (Frame (JObj kvs) rest)) =
          Some (Inr (JObj kvs), rest)"
    using a skip
    by (simp add: fresh listen_for_message_skip listen_for_message_Frame msg_matches_JObj)
  from evaluate_js_managed [OF this, of "global_var_expression var_name" False]
  obtain t' where "evaluate_js tab (global_var_expression var_name) False True True conn =
                     Some (Inr (JObj kvs), t')"
    using a by auto
  then have run: "tab_has_global_var h conn tab_name var_name =
                    Some (result_value (JObj kvs), slept)"
    using a by (simp add: tab_has_global_var_def)
  {
    assume "map_of kvs ''result'' = Some (JObj outer) \<and> map_of outer ''result'' = Some (JObj inner) \<and>
         map_of inner ''value'' = Some v"
    then show "tab_has_global_var h conn tab_name var_name = Some (Inr v, slept)"
      by (simp add: run result_value_present)
  next
    assume "map_of kvs ''result'' = None \<or>
           (map_of kvs ''result'' = Some (JObj outer) \<and>
             (map_of outer ''result'' = None \<or>
              (map_of outer ''result'' = Some (JObj inner) \<and> map_of inner ''value'' = None)))"
    then show "tab_has_global_var h conn tab_name var_name = Some (Inr (JBool False), slept)"
      using result_value_missing [of kvs outer inner] by (simp add: run)
  }
qed


theorem tab_has_global_var_results_witness:
  "tab_has_global_var (Responded (ok_response (JArr [listing_entry ''Tab1'' ''A1''])))
     (Inr (Frame paused_event
        (Frame (response_to 1 (JObj [(''result'', JObj [(''type'', JStr ''boolean''), (''value'', JBool True)])]))
           Closed)))
     ''Tab1'' ''foo'' = Some (Inr (JBool True), [])
   \<and> tab_has_global_var (Responded (ok_response (JArr [listing_entry ''Tab1'' ''A1''])))
     (Inr (Frame (JObj [(''id'', JInt 1)]) Closed)) ''Tab1'' ''foo'' = Some (Inr (JBool False), [])
   \<and> tab_has_global_var (Responded (ok_response (JArr [listing_entry ''Tab1'' ''A1''])))
     (Inr Closed) ''Tab2'' ''foo'' = Some (Inr (JBool False), [])"
proof -
  let ?host = "Responded (ok_response (JArr [listing_entry ''Tab1'' ''A1'']))"
  let ?in2 = "[(''type'', JStr ''boolean''), (''value'', JBool True)]"
  let ?out2 = "[(''result'', JObj ?in2)]"
  let ?msg = "[(''id'', JInt 1), (''result'', JObj ?out2)]"
  have tabs: "get_tabs ?host = Some (Inr [listed_tab ''Tab1'' ''A1''], [])"
    by (simp add: get_tabs_def get_loop_Responded ok_response_def listing_entry_def
        listed_tab_def Tab_init_def)
  have tab: "get_tab ?host ''Tab1'' = Some (Inr (listed_tab ''Tab1'' ''A1''), [])"
    by (simp add: get_tab_def tabs listed_tab_def)
  have none: "\<forall>p\<in>set [listed_tab ''Tab1'' ''A1'']. title p \<noteq> JStr ''Tab2''"
    by (simp add: listed_tab_def)
  have pre: "\<forall>x\<in>set [paused_event]. \<exists>xs. x = JObj xs \<and>
           (map_of xs ''id'' = None \<or> (\<exists>j. map_of xs ''id'' = Some (JInt j) \<and> j \<noteq> 1))"
    by (simp add: paused_event_def)
  show ?thesis
    using
      tab_has_global_var_results [where h = ?host and tabs = "[listed_tab ''Tab1'' ''A1'']" and slept = "[]"
            and tab_name = "''Tab2''" and conn = "Inr Closed" and var_name = "''foo''"
            and tab = "listed_tab ''Tab1'' ''A1''" and pre = "[]" and kvs = "[]" and rest = Closed
            and outer = "[]" and inner = "[]" and v = JNull]
      tab_has_global_var_results [where h = ?host and tabs = "[]" and slept = "[]"
            and tab_name = "''Tab1''" and conn = "Inr (prepend [paused_event] (Frame (JObj ?msg) Closed))"
            and var_name = "''foo''"
            and tab = "listed_tab ''Tab1'' ''A1''" and pre = "[paused_event]" and kvs = ?msg
            and rest = Closed and outer = ?out2 and inner = ?in2 and v = "JBool True"]
      tab_has_global_var_results [where h = ?host and tabs = "[]" and slept = "[]"
            and tab_name = "''Tab1''" and conn = "Inr (prepend [] (Frame (JObj [(''id'', JInt 1)]) Closed))"
            and var_name = "''foo''"
            and tab = "listed_tab ''Tab1'' ''A1''" and pre = "[]" and kvs = "[(''id'', JInt 1)]"
            and rest = Closed and outer = "[]" and inner = "[]" and v = JNull]
      tabs tab none pre
    by (simp add: response_to_def)
qed

subsection \<open>The wrapper for on-load scripts\<close>

lemma format_template_fails:
  "py_format [(''js'', js)] wrappedjs_template None =
     Inl (ValueError ''unexpected '{' in field name'')"
  by (simp add: wrappedjs_template_def emit_def)

text \<open>
  C7: with \<^verbatim>\<open>add_dom_wrapper=True\<close> nothing is registered. The template of the wrapper
  goes through \<^verbatim>\<open>str.format\<close> with the braces of its JavaScript unescaped, so the first
  brace opens a replacement field, the next one is met inside the field name, and
  \<^verbatim>\<open>format\<close> raises \<^verbatim>\<open>ValueError\<close> for every script, before the socket is opened and
  before any command is sent. The claim describes what the docstring of the function
  promises; the code does not do it.
\<close>

theorem add_script_with_wrapper_raises:
  "add_script_to_evaluate_on_new_document t js True manage_socket get_result conn =
     Some (Inl (ValueError ''unexpected '{' in field name''), t)"
  by (simp add: add_script_to_evaluate_on_new_document_def and_then_def lift_def
      format_template_fails)

theorem add_script_with_wrapper_raises_witness:
  "add_script_to_evaluate_on_new_document example_tab ''console.log(1)'' True True True
     (Inr Closed) = Some (Inl (ValueError ''unexpected '{' in field name''), example_tab)"
  by (rule add_script_with_wrapper_raises)

subsection \<open>Reload and evaluate\<close>

lemma send_await:
  assumes "websocket t = Some w"
    and "listen_for_message (cmd_id t + 1) (inbound w) = Some (r, s')"
  shows "send_devtools_cmd t dc True =
           Some (r, t\<lparr>cmd_id := cmd_id t + 1,
                      websocket :=
                        Some \<lparr>sent = sent w @ [JObj (dict_set ''id'' (JInt (cmd_id t + 1)) dc)],
                              inbound = s'\<rparr>\<rparr>)"
  using assms by (simp add: send_devtools_cmd_def Let_def)

lemma send_forget:
  assumes "websocket t = Some w"
  shows "send_devtools_cmd t dc False =
           Some (Inr JNull,
                 t\<lparr>cmd_id := cmd_id t + 1,
                   websocket :=
                     Some \<lparr>sent = sent w @ [JObj (dict_set ''id'' (JInt (cmd_id t + 1)) dc)],
                           inbound = inbound w\<rparr>\<rparr>)"
  using assms by (simp add: send_devtools_cmd_def Let_def)

lemma evaluate_rounds_3:
  assumes "websocket t = Some w"
  shows "evaluate_rounds 3 t js =
     Some (Inr (),
       t\<lparr>cmd_id := cmd_id t + 3,
         websocket := Some \<lparr>sent = sent w @
            [JObj [(''method'', JStr ''Runtime.evaluate''),
                   (''params'', JObj [(''expression'', JStr js), (''userGesture'', JBool True),
                                      (''awaitPromise'', JBool False)]),
                   (''id'', JInt (cmd_id t + 1))],
             JObj [(''method'', JStr ''Runtime.evaluate''),
                   (''params'', JObj [(''expression'', JStr js), (''userGesture'', JBool True),
                                      (''awaitPromise'', JBool False)]),
                   (''id'', JInt (cmd_id t + 2))],
             JObj [(''method'', JStr ''Runtime.evaluate''),
                   (''params'', JObj [(''expression'', JStr js), (''userGesture'', JBool True),
                                      (''awaitPromise'', JBool False)]),
                   (''id'', JInt (cmd_id t + 3))]],
            inbound = inbound w\<rparr>\<rparr>)"
  using assms by (simp add: numeral_3_eq_3 send_forget)

text \<open>
  The workflow in terms of what the six reads of the model return. This is a step towards
  the theorem below, which asks in addition that every read finds its response, so that
  the stream has not ended when a command is sent.
\<close>

lemma reload_and_evaluate_open:
  assumes w: "websocket t = Some w"
    and l1: "listen_for_message (cmd_id t + 1) (inbound w) = Some (Inr a, s1)"
    and l2: "listen_for_message (cmd_id t + 2) s1 = Some (Inr (JObj kvs), s2)"
    and b1: "map_of kvs ''result'' = Some (JObj res)"
    and b2: "map_of res ''breakpointId'' = Some bid"
    and l3: "listen_for_message (cmd_id t + 3) s2 = Some (Inr b, s3)"
    and l7: "listen_for_message (cmd_id t + 7) s3 = Some (Inr c, s4)"
    and l8: "listen_for_message (cmd_id t + 8) s4 = Some (Inr d, s5)"
    and l9: "listen_for_message (cmd_id t + 9) s5 = Some (Inr e, s6)"
  shows "reload_and_evaluate t js False conn =
           Some (Inr (),
                 t\<lparr>cmd_id := cmd_id t + 9,
                   websocket := Some \<lparr>sent = sent w @ reload_commands (cmd_id t) js bid,
                                      inbound = s6\<rparr>\<rparr>)"
proof -
  define T where "T k xs s =
      t\<lparr>cmd_id := cmd_id t + k, websocket := Some \<lparr>sent = sent w @ xs, inbound = s\<rparr>\<rparr>"
    for k xs s
  let ?cs = "reload_commands (cmd_id t) js bid"
  define p1 where "p1 = take 1 ?cs"
  define p2 where "p2 = take 2 ?cs"
  define p3 where "p3 = take 3 ?cs"
  define p6 where "p6 = take 6 ?cs"
  define p7 where "p7 = take 7 ?cs"
  define p8 where "p8 = take 8 ?cs"
  note ps = p1_def p2_def p3_def p6_def p7_def p8_def reload_commands_def
  have await: "send_devtools_cmd (T k xs s) dc True =
                 Some (r, T (k + 1) (xs @ [JObj (dict_set ''id'' (JInt (cmd_id t + (k + 1))) dc)]) s')"
    if "listen_for_message (cmd_id t + (k + 1)) s = Some (r, s')" for k xs s dc r s'
    using that by (simp add: T_def send_devtools_cmd_def Let_def add.assoc)
  have e1: "send_devtools_cmd t [(''method'', JStr ''Debugger.enable'')] True =
              Some (Inr a, T 1 p1 s1)"
    using send_await [OF w l1] by (simp add: T_def ps)
  have e2: "send_devtools_cmd (T 1 p1 s1)
              [(''method'', JStr ''Debugger.setInstrumentationBreakpoint''),
               (''params'', JObj [(''instrumentation'', JStr ''beforeScriptExecution'')])] True =
              Some (Inr (JObj kvs), T 2 p2 s2)"
    using await [of 1 s1 "Inr (JObj kvs)" s2] l2 by (simp add: ps)
  have e3: "send_devtools_cmd (T 2 p2 s2) [(''method'', JStr ''Page.reload'')] True =
              Some (Inr b, T 3 p3 s3)"
    using await [of 2 s2 "Inr b" s3] l3 by (simp add: ps)
  have e456: "evaluate_rounds 3 (T 3 p3 s3) js = Some (Inr (), T 6 p6 s3)"
    using evaluate_rounds_3 [of "T 3 p3 s3" "\<lparr>sent = sent w @ p3, inbound = s3\<rparr>" js]
    by (simp add: T_def ps add.assoc)
  have e7: "send_devtools_cmd (T 6 p6 s3)
              [(''method'', JStr ''Debugger.removeBreakpoint''),
               (''params'', JObj [(''breakpointId'', bid)])] True =
              Some (Inr c, T 7 p7 s4)"
    using await [of 6 s3 "Inr c" s4] l7 by (simp add: ps)
  have e8: "send_devtools_cmd (T 7 p7 s4) [(''method'', JStr ''Debugger.resume'')] True =
              Some (Inr d, T 8 p8 s5)"
    using await [of 7 s4 "Inr d" s5] l8 by (simp add: ps)
  have e9: "send_devtools_cmd (T 8 p8 s5) [(''method'', JStr ''Debugger.disable'')] True =
              Some (Inr e, T 9 ?cs s6)"
    using await [of 8 s5 "Inr e" s6] l9 by (simp add: ps)
  have "reload_and_evaluate t js False conn = Some (Inr (), T 9 ?cs s6)"
    by (simp add: reload_and_evaluate_def and_then_def lift_def e1 e2 e3 e456 b1 b2 e7 e8 e9)
  then show ?thesis
    by (simp add: T_def)
qed


lemma reload_and_evaluate_managed:
  "reload_and_evaluate t js True (Inr s0) =
     (case reload_and_evaluate
             (t\<lparr>client := Some ClientOpen, websocket := Some \<lparr>sent = [], inbound = s0\<rparr>\<rparr>)
             js False (Inr s0) of
        None \<Rightarrow> None
      | Some (Inl e, t') \<Rightarrow> Some (Inl e, t')
      | Some (Inr u, t') \<Rightarrow> close_websocket t')"
  by (simp add: reload_and_evaluate_def and_then_def open_websocket_def close_websocket_def lift_def
      split: option.splits sum.splits prod.splits)

text \<open>
  C3, as stated, fails: the later commands are not always issued. When the host answers
  \<^verbatim>\<open>Debugger.setInstrumentationBreakpoint\<close> with an error message, which has no
  \<^verbatim>\<open>result\<close>, the subscript \<^verbatim>\<open>breakpoint_res["result"]\<close> raises \<^verbatim>\<open>KeyError\<close> after the
  three evaluate commands: \<^verbatim>\<open>Debugger.removeBreakpoint\<close>, \<^verbatim>\<open>Debugger.resume\<close> and
  \<^verbatim>\<open>Debugger.disable\<close> are never sent.
\<close>

theorem reload_and_evaluate_stops_without_breakpoint_id:
  "reload_and_evaluate
     (example_session
        (Frame (response_to 1 (JObj []))
          (Frame (JObj [(''id'', JInt 2), (''error'', JObj [(''code'', JInt (- 32000))])])
            (Frame (response_to 3 (JObj [])) Closed))))
     ''main()'' False (Inr Closed) =
   Some (Inl (KeyError ''result''),
         example_tab\<lparr>websocket :=
            Some \<lparr>sent =
                    [JObj [(''method'', JStr ''Debugger.enable''), (''id'', JInt 1)],
                     JObj [(''method'', JStr ''Debugger.setInstrumentationBreakpoint''),
                           (''params'', JObj [(''instrumentation'', JStr ''beforeScriptExecution'')]),
                           (''id'', JInt 2)],
                     JObj [(''method'', JStr ''Page.reload''), (''id'', JInt 3)],
                     JObj [(''method'', JStr ''Runtime.evaluate''),
                           (''params'', JObj [(''expression'', JStr ''main()''),
                                              (''userGesture'', JBool True),
                                              (''awaitPromise'', JBool False)]),
                           (''id'', JInt 4)],
                     JObj [(''method'', JStr ''Runtime.evaluate''),
                           (''params'', JObj [(''expression'', JStr ''main()''),
                                              (''userGesture'', JBool True),
                                              (''awaitPromise'', JBool False)]),
                           (''id'', JInt 5)],
                     JObj [(''method'', JStr ''Runtime.evaluate''),
                           (''params'', JObj [(''expression'', JStr ''main()''),
                                              (''userGesture'', JBool True),
                                              (''awaitPromise'', JBool False)]),
                           (''id'', JInt 6)]],
                  inbound = Closed\<rparr>,
            client := Some ClientOpen, cmd_id := 6\<rparr>)"
  by (simp add: reload_and_evaluate_def and_then_def lift_def example_session_def example_tab_def
      send_devtools_cmd_def Let_def listen_for_message_Frame listen_for_message_Closed
      msg_matches_JObj response_to_def numeral_3_eq_3)

lemma listen_for_message_response:
  assumes "\<forall>x\<in>set pre. \<exists>xs. x = JObj xs \<and>
             (map_of xs ''id'' = None \<or> (\<exists>j. map_of xs ''id'' = Some (JInt j) \<and> j \<noteq> n))"
    and "map_of kvs ''id'' = Some (JInt n)"
  shows "listen_for_message n (prepend pre (Frame (JObj kvs) rest)) = Some (Inr (JObj kvs), rest)"
proof -
  have "\<forall>x\<in>set pre. msg_matches x n = Inr False"
    using assms(1) by (blast intro: unrelated_not_matching)
  then show ?thesis
    using assms(2)
    by (simp add: listen_for_message_skip listen_for_message_Frame msg_matches_JObj)
qed

text \<open>
  C3, amended: when each of the six awaited commands gets its response, a message that
  carries the id of the command and comes after any number of events and of messages
  with other ids, and the response to \<^verbatim>\<open>Debugger.setInstrumentationBreakpoint\<close> has
  \<^verbatim>\<open>result.breakpointId\<close>, then \<^verbatim>\<open>reload_and_evaluate\<close> returns and has issued, in this
  order and with consecutive ids, \<^verbatim>\<open>Debugger.enable\<close>,
  \<^verbatim>\<open>Debugger.setInstrumentationBreakpoint\<close>, \<^verbatim>\<open>Page.reload\<close>, three times
  \<^verbatim>\<open>Runtime.evaluate\<close> with the expression (none of them read for),
  \<^verbatim>\<open>Debugger.removeBreakpoint\<close> with that breakpoint id, \<^verbatim>\<open>Debugger.resume\<close> and
  \<^verbatim>\<open>Debugger.disable\<close>. The stream has not ended at any of the nine sends, since the
  response to the last command is still to come. This holds on a connection the caller
  has opened and on one the function opens and closes itself. No hypothesis asks for a
  \<^verbatim>\<open>Debugger.paused\<close> event: whether the page hit the breakpoint plays no part.
\<close>

theorem reload_and_evaluate_issues_fixed_sequence:
  assumes "start =
             prepend pa (Frame (JObj ka)
            (prepend pb (Frame (JObj kb)
            (prepend pc (Frame (JObj kc)
            (prepend pd (Frame (JObj kd)
            (prepend pe (Frame (JObj ke)
            (prepend pf (Frame (JObj kf) rest)))))))))))"
    and "\<forall>x\<in>set pa. \<exists>xs. x = JObj xs \<and>
           (map_of xs ''id'' = None \<or>
            (\<exists>j. map_of xs ''id'' = Some (JInt j) \<and> j \<noteq> cmd_id t + 1))"
    and "map_of ka ''id'' = Some (JInt (cmd_id t + 1))"
    and "\<forall>x\<in>set pb. \<exists>xs. x = JObj xs \<and>
           (map_of xs ''id'' = None \<or>
            (\<exists>j. map_of xs ''id'' = Some (JInt j) \<and> j \<noteq> cmd_id t + 2))"
    and "map_of kb ''id'' = Some (JInt (cmd_id t + 2))"
    and "map_of kb ''result'' = Some (JObj res)"
    and "map_of res ''breakpointId'' = Some bid"
    and "\<forall>x\<in>set pc. \<exists>xs. x = JObj xs \<and>
           (map_of xs ''id'' = None \<or>
            (\<exists>j. map_of xs ''id'' = Some (JInt j) \<and> j \<noteq> cmd_id t + 3))"
    and "map_of kc ''id'' = Some (JInt (cmd_id t + 3))"
    and "\<forall>x\<in>set pd. \<exists>xs. x = JObj xs \<and>
           (map_of xs ''id'' = None \<or>
            (\<exists>j. map_of xs ''id'' = Some (JInt j) \<and> j \<noteq> cmd_id t + 7))"
    and "map_of kd ''id'' = Some (JInt (cmd_id t + 7))"
    and "\<forall>x\<in>set pe. \<exists>xs. x = JObj xs \<and>
           (map_of xs ''id'' = None \<or>
            (\<exists>j. map_of xs ''id'' = Some (JInt j) \<and> j \<noteq> cmd_id t + 8))"
    and "map_of ke ''id'' = Some (JInt (cmd_id t + 8))"
    and "\<forall>x\<in>set pf. \<exists>xs. x = JObj xs \<and>
           (map_of xs ''id'' = None \<or>
            (\<exists>j. map_of xs ''id'' = Some (JInt j) \<and> j \<noteq> cmd_id t + 9))"
    and "map_of kf ''id'' = Some (JInt (cmd_id t + 9))"
  shows "(websocket t = Some w \<and> inbound w = start \<longrightarrow>
            reload_and_evaluate t js False conn =
              Some (Inr (),
                    t\<lparr>cmd_id := cmd_id t + 9,
                      websocket := Some \<lparr>sent = sent w @ reload_commands (cmd_id t) js bid,
                                         inbound = rest\<rparr>\<rparr>))
       \<and> reload_and_evaluate t js True (Inr start) =
            Some (Inr (),
                  t\<lparr>cmd_id := cmd_id t + 9,
                    client := Some ClientClosed,
                    websocket := Some \<lparr>sent = reload_commands (cmd_id t) js bid,
                                       inbound = Closed\<rparr>\<rparr>)"
proof -
  let ?sf = "prepend pf (Frame (JObj kf) rest)"
  let ?se = "prepend pe (Frame (JObj ke) ?sf)"
  let ?sd = "prepend pd (Frame (JObj kd) ?se)"
  let ?sc = "prepend pc (Frame (JObj kc) ?sd)"
  let ?sb = "prepend pb (Frame (JObj kb) ?sc)"
  have la: "listen_for_message (cmd_id t + 1) start = Some (Inr (JObj ka), ?sb)"
    unfolding assms(1) using assms(2,3) by (rule listen_for_message_response)
  have lb: "listen_for_message (cmd_id t + 2) ?sb = Some (Inr (JObj kb), ?sc)"
    using assms(4,5) by (rule listen_for_message_response)
  have lc: "listen_for_message (cmd_id t + 3) ?sc = Some (Inr (JObj kc), ?sd)"
    using assms(8,9) by (rule listen_for_message_response)
  have ld: "listen_for_message (cmd_id t + 7) ?sd = Some (Inr (JObj kd), ?se)"
    using assms(10,11) by (rule listen_for_message_response)
  have le: "listen_for_message (cmd_id t + 8) ?se = Some (Inr (JObj ke), ?sf)"
    using assms(12,13) by (rule listen_for_message_response)
  have lf: "listen_for_message (cmd_id t + 9) ?sf = Some (Inr (JObj kf), rest)"
    using assms(14,15) by (rule listen_for_message_response)
  have unmanaged: "reload_and_evaluate t js False conn =
              Some (Inr (),
                    t\<lparr>cmd_id := cmd_id t + 9,
                      websocket := Some \<lparr>sent = sent w @ reload_commands (cmd_id t) js bid,
                                         inbound = rest\<rparr>\<rparr>)"
    if "websocket t = Some w \<and> inbound w = start"
  proof -
    from that have w: "websocket t = Some w" and i: "inbound w = start"
      by simp_all
    show ?thesis
      by (rule reload_and_evaluate_open
            [OF w la [folded i] lb assms(6) assms(7) lc ld le lf])
  qed
  let ?t = "t\<lparr>client := Some ClientOpen, websocket := Some \<lparr>sent = [], inbound = start\<rparr>\<rparr>"
  have w': "websocket ?t = Some \<lparr>sent = [], inbound = start\<rparr>"
    by simp
  have la': "listen_for_message (cmd_id ?t + 1) (inbound \<lparr>sent = [], inbound = start\<rparr>) =
               Some (Inr (JObj ka), ?sb)"
    using la by simp
  have lb': "listen_for_message (cmd_id ?t + 2) ?sb = Some (Inr (JObj kb), ?sc)"
    using lb by simp
  have lc': "listen_for_message (cmd_id ?t + 3) ?sc = Some (Inr (JObj kc), ?sd)"
    using lc by simp
  have ld': "listen_for_message (cmd_id ?t + 7) ?sd = Some (Inr (JObj kd), ?se)"
    using ld by simp
  have le': "listen_for_message (cmd_id ?t + 8) ?se = Some (Inr (JObj ke), ?sf)"
    using le by simp
  have lf': "listen_for_message (cmd_id ?t + 9) ?sf = Some (Inr (JObj kf), rest)"
    using lf by simp
  have "reload_and_evaluate ?t js False (Inr start) =
          Some (Inr (),
                ?t\<lparr>cmd_id := cmd_id ?t + 9,
                   websocket := Some \<lparr>sent = sent \<lparr>sent = [], inbound = start\<rparr> @
                                              reload_commands (cmd_id ?t) js bid,
                                      inbound = rest\<rparr>\<rparr>)"
    by (rule reload_and_evaluate_open [OF w' la' lb' assms(6) assms(7) lc' ld' le' lf'])
  then have managed: "reload_and_evaluate t js True (Inr start) =
            Some (Inr (),
                  t\<lparr>cmd_id := cmd_id t + 9,
                    client := Some ClientClosed,
                    websocket := Some \<lparr>sent = reload_commands (cmd_id t) js bid,
                                       inbound = Closed\<rparr>\<rparr>)"
    by (simp add: reload_and_evaluate_managed close_websocket_def)
  show ?thesis
    using unmanaged managed by blast
qed

theorem reload_and_evaluate_issues_fixed_sequence_witness:
  "reload_and_evaluate
     (example_session
        (Frame (response_to 1 (JObj []))
          (Frame (response_to 2 (JObj [(''breakpointId'', JStr ''1:0:0'')]))
            (Frame (response_to 3 (JObj []))
              (Frame (response_to 5 (JObj []))
                (Frame (response_to 7 (JObj []))
                  (Frame (response_to 8 (JObj []))
                    (Frame (response_to 9 (JObj [])) Closed))))))))
     ''main()'' False (Inr Closed) =
   Some (Inr (),
         example_tab\<lparr>websocket :=
                       Some \<lparr>sent = reload_commands 0 ''main()'' (JStr ''1:0:0''),
                             inbound = Closed\<rparr>,
                     client := Some ClientOpen, cmd_id := 9\<rparr>)"
proof -
  let ?ok = "\<lambda>i. [(''id'', JInt i), (''result'', JObj [])]"
  let ?bp = "[(''id'', JInt 2), (''result'', JObj [(''breakpointId'', JStr ''1:0:0'')])]"
  let ?start = "Frame (JObj (?ok 1)) (Frame (JObj ?bp) (Frame (JObj (?ok 3))
                  (Frame (JObj (?ok 5)) (Frame (JObj (?ok 7)) (Frame (JObj (?ok 8))
                    (Frame (JObj (?ok 9)) Closed))))))"
  let ?t = "example_session ?start"
  note ev = example_session_def example_tab_def
  have h0: "?start =
             prepend [] (Frame (JObj (?ok 1))
            (prepend [] (Frame (JObj ?bp)
            (prepend [] (Frame (JObj (?ok 3))
            (prepend [JObj (?ok 5)] (Frame (JObj (?ok 7))
            (prepend [] (Frame (JObj (?ok 8))
            (prepend [] (Frame (JObj (?ok 9)) Closed)))))))))))"
    by simp
  have none: "\<forall>x\<in>set []. \<exists>xs. x = JObj xs \<and>
           (map_of xs ''id'' = None \<or> (\<exists>j. map_of xs ''id'' = Some (JInt j) \<and> j \<noteq> n))" for n :: int
    by simp
  have five: "\<forall>x\<in>set [JObj (?ok 5)]. \<exists>xs. x = JObj xs \<and>
           (map_of xs ''id'' = None \<or>
            (\<exists>j. map_of xs ''id'' = Some (JInt j) \<and> j \<noteq> cmd_id ?t + 7))"
    by (simp add: ev)
  have ia: "map_of (?ok 1) ''id'' = Some (JInt (cmd_id ?t + 1))" by (simp add: ev)
  have ib: "map_of ?bp ''id'' = Some (JInt (cmd_id ?t + 2))" by (simp add: ev)
  have ic: "map_of (?ok 3) ''id'' = Some (JInt (cmd_id ?t + 3))" by (simp add: ev)
  have id': "map_of (?ok 7) ''id'' = Some (JInt (cmd_id ?t + 7))" by (simp add: ev)
  have ie: "map_of (?ok 8) ''id'' = Some (JInt (cmd_id ?t + 8))" by (simp add: ev)
  have if': "map_of (?ok 9) ''id'' = Some (JInt (cmd_id ?t + 9))" by (simp add: ev)
  have r1: "map_of ?bp ''result'' = Some (JObj [(''breakpointId'', JStr ''1:0:0'')])" by simp
  have r2: "map_of [(''breakpointId'', JStr ''1:0:0'')] ''breakpointId'' = Some (JStr ''1:0:0'')"
    by simp
  show ?thesis
    using reload_and_evaluate_issues_fixed_sequence
            [OF h0 none ia none ib r1 r2 none ic five id' none ie none if',
             of "\<lparr>sent = [], inbound = ?start\<rparr>" "''main()''" "Inr Closed"]
    by (simp add: ev response_to_def)
qed

end
